theory Spec2Isabelle
  imports Main
begin

section \<open>CTFd application bootstrap: template resolution and the version gate\<close>

text \<open>
  A shallow embedding of \<^verbatim>\<open>CTFd/__init__.py\<close>: the template loader
  \<^verbatim>\<open>ThemeLoader.get_source\<close>, the helpers \<^verbatim>\<open>confirm_upgrade\<close> and
  \<^verbatim>\<open>run_upgrade\<close>, and the part of \<^verbatim>\<open>create_app\<close> that prepares the
  schema, checks the stored version and sets the default theme.

  Exceptions are values of the type \<open>error\<close>; a function that can raise returns
  \<open>error + 'a\<close>. Everything the code does to the outside (configuration reads and
  writes, calls of the migration helpers, terminal output and input) is appended to a
  trace, so that the order of these effects can be stated.
\<close>

subsection \<open>Exceptions\<close>

datatype error =
    TemplateNotFound string
  | TypeError
  | ValueError
  | EOFError
  | SystemExit "nat option"
  | DatabaseError string

text \<open>
  The exit status of the interpreter when the exception reaches the top level:
  \<^verbatim>\<open>SystemExit(None)\<close> is status 0, \<^verbatim>\<open>SystemExit(n)\<close> is status \<open>n\<close>, and any other
  uncaught exception prints a traceback and gives status 1.
\<close>

fun exit_status :: "error \<Rightarrow> nat" where
  "exit_status (SystemExit None) = 0"
| "exit_status (SystemExit (Some n)) = n"
| "exit_status _ = 1"

subsection \<open>Python string operations\<close>

text \<open>\<^verbatim>\<open>s.startswith(p)\<close> and \<^verbatim>\<open>s.endswith(p)\<close>.\<close>

definition startswith :: "string \<Rightarrow> string \<Rightarrow> bool" where
  "startswith p s = (take (length p) s = p)"

definition endswith :: "string \<Rightarrow> string \<Rightarrow> bool" where
  "endswith p s = (length p \<le> length s \<and> drop (length s - length p) s = p)"

text \<open>\<^verbatim>\<open>sep.join(xs)\<close>.\<close>

fun join :: "string \<Rightarrow> string list \<Rightarrow> string" where
  "join sep [] = []"
| "join sep [x] = x"
| "join sep (x # y # ys) = x @ sep @ join sep (y # ys)"

text \<open>
  \<^verbatim>\<open>s.split(c)\<close> for a separator of one character: the pieces between the
  separators, empty pieces kept; \<open>split_acc\<close> carries the piece being read.
\<close>

fun split_acc :: "char \<Rightarrow> string \<Rightarrow> string \<Rightarrow> string list" where
  "split_acc c acc [] = [acc]"
| "split_acc c acc (x # xs) =
     (if x = c then acc # split_acc c [] xs else split_acc c (acc @ [x]) xs)"

definition split :: "char \<Rightarrow> string \<Rightarrow> string list" where
  "split c s = split_acc c [] s"

text \<open>
  \<^verbatim>\<open>s.lower()\<close> and \<^verbatim>\<open>s.strip()\<close> of a Python 3 \<^verbatim>\<open>str\<close>. A character stands
  for a code point below 256. The upper-case letters among these are 65 to 90 (A to Z)
  and 192 to 222 without 215 (the multiplication sign); each has its lower-case letter
  32 places further on. The white space that \<^verbatim>\<open>str.strip\<close> removes is 9 to 13,
  28 to 32, 133 (next line) and 160 (no-break space).
\<close>

definition lower_char :: "char \<Rightarrow> char" where
  "lower_char c =
     (let n = (of_char c :: nat) in
      if (65 \<le> n \<and> n \<le> 90) \<or> (192 \<le> n \<and> n \<le> 222 \<and> n \<noteq> 215)
      then char_of (n + 32) else c)"

definition lower :: "string \<Rightarrow> string" where
  "lower s = map lower_char s"

definition isspace :: "char \<Rightarrow> bool" where
  "isspace c =
     (let n = (of_char c :: nat) in
      (9 \<le> n \<and> n \<le> 13) \<or> (28 \<le> n \<and> n \<le> 32) \<or> n = 133 \<or> n = 160)"

definition strip :: "string \<Rightarrow> string" where
  "strip s = rev (dropWhile isspace (rev (dropWhile isspace s)))"

subsection \<open>The filesystem loader of the template engine\<close>

text \<open>
  \<^verbatim>\<open>ThemeLoader\<close> extends the template engine's \<^verbatim>\<open>FileSystemLoader\<close> and ends in
  a call of the inherited \<^verbatim>\<open>get_source\<close>. That class belongs to the jinja2 library; it
  is modelled here after its published source, on a POSIX file system given as a map
  from the names of regular files to their contents:
  \<^verbatim>\<open>
  def split_template_path(template):
      pieces = []
      for piece in template.split('/'):
          if path.sep in piece or (path.altsep and path.altsep in piece) \
                  or piece == path.pardir:
              raise TemplateNotFound(template)
          elif piece and piece != '.':
              pieces.append(piece)
      return pieces

  def get_source(self, environment, template):
      pieces = split_template_path(template)
      for searchpath in self.searchpath:
          filename = path.join(searchpath, *pieces)
          f = open_if_exists(filename)
          if f is None:
              continue
          ...
          return contents, filename, uptodate
      raise TemplateNotFound(template)
  \<close>
  The third component of a result is the engine's check that a cached template is still
  current: the inherited loader returns a closure that compares the file's modification
  time, \<^verbatim>\<open>ThemeLoader\<close> returns the literal \<^verbatim>\<open>True\<close> for an override.
\<close>

datatype uptodate = Literal_True | Mtime_check string

type_synonym source = "string \<times> string \<times> uptodate"

type_synonym filesystem = "string \<rightharpoonup> string"

fun split_template_path_loop :: "string \<Rightarrow> string list \<Rightarrow> string list \<Rightarrow> error + string list" where
  "split_template_path_loop template pieces [] = Inr pieces"
| "split_template_path_loop template pieces (piece # rest) =
     (if CHR ''/'' \<in> set piece \<or> piece = ''..'' then Inl (TemplateNotFound template)
      else if piece \<noteq> [] \<and> piece \<noteq> ''.''
        then split_template_path_loop template (pieces @ [piece]) rest
      else split_template_path_loop template pieces rest)"

definition split_template_path :: "string \<Rightarrow> error + string list" where
  "split_template_path template =
     split_template_path_loop template [] (split (CHR ''/'') template)"

text \<open>\<^verbatim>\<open>os.path.join(path, *bs)\<close> of \<^verbatim>\<open>posixpath\<close>.\<close>

fun path_join :: "string \<Rightarrow> string list \<Rightarrow> string" where
  "path_join path [] = path"
| "path_join path (b # bs) =
     path_join
       (if startswith ''/'' b then b
        else if path = [] \<or> endswith ''/'' path then path @ b
        else path @ ''/'' @ b) bs"

fun FileSystemLoader_search ::
  "filesystem \<Rightarrow> string list \<Rightarrow> string list \<Rightarrow> string \<Rightarrow> error + source" where
  "FileSystemLoader_search fs [] pieces template = Inl (TemplateNotFound template)"
| "FileSystemLoader_search fs (searchpath # rest) pieces template =
     (let filename = path_join searchpath pieces in
      case fs filename of
        None \<Rightarrow> FileSystemLoader_search fs rest pieces template
      | Some contents \<Rightarrow> Inr (contents, filename, Mtime_check filename))"

definition FileSystemLoader_get_source ::
  "filesystem \<Rightarrow> string list \<Rightarrow> string \<Rightarrow> error + source" where
  "FileSystemLoader_get_source fs searchpaths template =
     (case split_template_path template of
        Inl e \<Rightarrow> Inl e
      | Inr pieces \<Rightarrow> FileSystemLoader_search fs searchpaths pieces template)"

subsection \<open>The world outside the module\<close>

text \<open>
  The effects of the module on its collaborators, in the order in which they happen.
\<close>

datatype event =
    GetConfig string
  | SetConfig string string
  | CreateAll
  | Stamp
  | Upgrade
  | Print string
  | Input string

text \<open>
  The state the module works on: the configuration store, the database schema with its
  migration ledger (of any type \<open>'db\<close>), the lines the operator will type, and the
  trace of effects so far.
\<close>

record 'db world =
  config :: "string \<rightharpoonup> string"
  db :: 'db
  stdin :: "string list"
  trace :: "event list"

text \<open>
  Modelled from the spec: \<^verbatim>\<open>utils.get_config\<close> and \<^verbatim>\<open>utils.set_config\<close> live in
  \<^verbatim>\<open>CTFd/utils\<close>, which is not among the source files. The spec gives the configuration
  store as \<^verbatim>\<open>get(key) -> value|absent\<close> and \<^verbatim>\<open>set(key, value)\<close>; an absent value is
  Python's \<^verbatim>\<open>None\<close>.
\<close>

definition get_config :: "string \<Rightarrow> 'db world \<Rightarrow> string option \<times> 'db world" where
  "get_config key w = (config w key, w\<lparr>trace := trace w @ [GetConfig key]\<rparr>)"

definition set_config :: "string \<Rightarrow> string \<Rightarrow> 'db world \<Rightarrow> 'db world" where
  "set_config key v w =
     w\<lparr>config := (config w)(key \<mapsto> v), trace := trace w @ [SetConfig key v]\<rparr>"

text \<open>Python's truth value of a configuration value: \<^verbatim>\<open>None\<close> and \<^verbatim>\<open>''\<close> are false.\<close>

fun truthy :: "string option \<Rightarrow> bool" where
  "truthy None = False"
| "truthy (Some s) = (s \<noteq> [])"

subsection \<open>\<^verbatim>\<open>ThemeLoader\<close>\<close>

record ThemeLoader =
  searchpath :: "string list"
  overriden_templates :: "string \<rightharpoonup> string"

text \<open>
  \<^verbatim>\<open>ThemeLoader.__init__\<close>: the inherited constructor makes a list of the one search
  path, and the override map starts empty.
\<close>

definition ThemeLoader_init :: "string \<Rightarrow> ThemeLoader" where
  "ThemeLoader_init path = \<lparr>searchpath = [path], overriden_templates = Map.empty\<rparr>"

text \<open>
  \<^verbatim>\<open>ThemeLoader.get_source\<close>. Joining the path pieces raises \<^verbatim>\<open>TypeError\<close> when the
  configured theme is \<^verbatim>\<open>None\<close>.
\<close>

definition get_source ::
  "ThemeLoader \<Rightarrow> filesystem \<Rightarrow> string \<Rightarrow> 'db world \<Rightarrow> (error + source) \<times> 'db world" where
  "get_source self fs template w =
     (case overriden_templates self template of
        Some text \<Rightarrow> (Inr (text, template, Literal_True), w)
      | None \<Rightarrow>
          if startswith ''admin/'' template then
            (let template1 = drop 6 template;
                 template2 = join ''/'' [''admin'', ''templates'', template1]
             in (FileSystemLoader_get_source fs (searchpath self) template2, w))
          else
            (case get_config ''ctf_theme'' w of
               (None, w1) \<Rightarrow> (Inl TypeError, w1)
             | (Some theme, w1) \<Rightarrow>
                 (let template1 = join ''/'' [theme, ''templates'', template]
                  in (FileSystemLoader_get_source fs (searchpath self) template1, w1))))"

subsection \<open>Version numbers: \<^verbatim>\<open>distutils.version.StrictVersion\<close>\<close>

text \<open>
  The version check of \<^verbatim>\<open>create_app\<close> compares two \<^verbatim>\<open>StrictVersion\<close> objects of the
  standard library. Its constructor matches the string against
  \<^verbatim>\<open>^(\d+) \. (\d+) (\. (\d+))? ([ab](\d+))?$\<close> and raises \<^verbatim>\<open>ValueError\<close> when it does
  not match; the patch number is 0 when it is left out; \<^verbatim>\<open>$\<close> also matches before one
  final newline. The comparison is that of the number triples, and for equal triples a
  version with a pre-release tag comes before the one without.
\<close>

definition isdigit :: "char \<Rightarrow> bool" where
  "isdigit c = (let n = (of_char c :: nat) in 48 \<le> n \<and> n \<le> 57)"

definition int_of_digits :: "string \<Rightarrow> nat" where
  "int_of_digits s = foldl (\<lambda>acc c. 10 * acc + (of_char c - 48)) 0 s"

definition span_digits :: "string \<Rightarrow> string \<times> string" where
  "span_digits s = (takeWhile isdigit s, dropWhile isdigit s)"

record StrictVersion =
  version_tuple :: "nat \<times> nat \<times> nat"
  prerelease :: "(char \<times> nat) option"

definition at_end :: "string \<Rightarrow> bool" where
  "at_end s = (s = [] \<or> s = [CHR 0x0A])"

text \<open>The optional group \<^verbatim>\<open>([ab](\d+))?\<close> and the end of the string.\<close>

definition parse_prerelease :: "string \<Rightarrow> (char \<times> nat) option option" where
  "parse_prerelease s =
     (if at_end s then Some None
      else case s of
        [] \<Rightarrow> None
      | c # rest \<Rightarrow>
          if c = CHR ''a'' \<or> c = CHR ''b'' then
            (case span_digits rest of (num, rest1) \<Rightarrow>
               if num \<noteq> [] \<and> at_end rest1 then Some (Some (c, int_of_digits num)) else None)
          else None)"

text \<open>The optional group \<^verbatim>\<open>(\. (\d+))?\<close>: the digits of the patch number and the rest.\<close>

definition parse_patch :: "string \<Rightarrow> string \<times> string" where
  "parse_patch s =
     (case s of
        [] \<Rightarrow> ([], s)
      | c # rest \<Rightarrow>
          if c = CHR ''.'' \<and> fst (span_digits rest) \<noteq> [] then span_digits rest else ([], s))"

definition StrictVersion_parse :: "string \<Rightarrow> error + StrictVersion" where
  "StrictVersion_parse vstring =
     (case span_digits vstring of (major, r1) \<Rightarrow>
        if major = [] then Inl ValueError
        else case r1 of
          [] \<Rightarrow> Inl ValueError
        | c # r2 \<Rightarrow>
            if c \<noteq> CHR ''.'' then Inl ValueError
            else case span_digits r2 of (minor, r3) \<Rightarrow>
              if minor = [] then Inl ValueError
              else case parse_patch r3 of (patch, r4) \<Rightarrow>
                (case parse_prerelease r4 of
                   None \<Rightarrow> Inl ValueError
                 | Some pre \<Rightarrow>
                     Inr \<lparr>version_tuple =
                            (int_of_digits major, int_of_digits minor,
                             if patch \<noteq> [] then int_of_digits patch else 0),
                          prerelease = pre\<rparr>))"

text \<open>Python's order on tuples of the same length, for the two kinds compared here.\<close>

fun tuple3_lt :: "nat \<times> nat \<times> nat \<Rightarrow> nat \<times> nat \<times> nat \<Rightarrow> bool" where
  "tuple3_lt (a, b, c) (x, y, z) = (a < x \<or> (a = x \<and> (b < y \<or> (b = y \<and> c < z))))"

fun prerelease_lt :: "char \<times> nat \<Rightarrow> char \<times> nat \<Rightarrow> bool" where
  "prerelease_lt (c, m) (d, n) =
     ((of_char c :: nat) < of_char d \<or> (c = d \<and> m < n))"

text \<open>\<^verbatim>\<open>StrictVersion._cmp\<close> and \<^verbatim>\<open>__lt__\<close>.\<close>

definition StrictVersion_cmp :: "StrictVersion \<Rightarrow> StrictVersion \<Rightarrow> int" where
  "StrictVersion_cmp self other =
     (if version_tuple self \<noteq> version_tuple other then
        (if tuple3_lt (version_tuple self) (version_tuple other) then -1 else 1)
      else case (prerelease self, prerelease other) of
          (None, None) \<Rightarrow> 0
        | (Some a, None) \<Rightarrow> -1
        | (None, Some b) \<Rightarrow> 1
        | (Some a, Some b) \<Rightarrow> (if a = b then 0 else if prerelease_lt a b then -1 else 1))"

definition StrictVersion_lt :: "StrictVersion \<Rightarrow> StrictVersion \<Rightarrow> bool" where
  "StrictVersion_lt self other = (StrictVersion_cmp self other < 0)"

subsection \<open>The collaborators of the bootstrap\<close>

text \<open>
  What \<^verbatim>\<open>create_app\<close> is given from outside: the driver name of the database URL,
  whether standard input is a terminal, and the three schema operations as functions on
  the database, each of which may raise and may leave the database changed when it does.
\<close>

record 'db env =
  drivername :: string
  isatty :: bool
  db_create_all :: "'db \<Rightarrow> (error + unit) \<times> 'db"
  migrations_stamp :: "'db \<Rightarrow> (error + unit) \<times> 'db"
  migrations_upgrade :: "'db \<Rightarrow> (error + unit) \<times> 'db"

definition call_db ::
  "event \<Rightarrow> ('db \<Rightarrow> (error + unit) \<times> 'db) \<Rightarrow> 'db world \<Rightarrow> (error + unit) \<times> 'db world" where
  "call_db ev f w =
     (case f (db w) of (r, d) \<Rightarrow> (r, w\<lparr>db := d, trace := trace w @ [ev]\<rparr>))"

text \<open>
  Modelled from the spec: \<^verbatim>\<open>upgrade\<close> and \<^verbatim>\<open>stamp\<close> live in
  \<^verbatim>\<open>CTFd/utils/migrations\<close>, which is not among the source files. The spec gives the
  migration ledger as an outside collaborator with the operations \<^verbatim>\<open>apply_to_latest()\<close>
  and \<^verbatim>\<open>stamp_latest()\<close>; they act on the schema and the ledger, here the component
  \<open>db\<close>, and not on the configuration store. \<^verbatim>\<open>db.create_all()\<close> is the schema
  creation of the database library, taken the same way.
\<close>

definition create_all :: "'db env \<Rightarrow> 'db world \<Rightarrow> (error + unit) \<times> 'db world" where
  "create_all env w = call_db CreateAll (db_create_all env) w"

definition stamp :: "'db env \<Rightarrow> 'db world \<Rightarrow> (error + unit) \<times> 'db world" where
  "stamp env w = call_db Stamp (migrations_stamp env) w"

definition upgrade :: "'db env \<Rightarrow> 'db world \<Rightarrow> (error + unit) \<times> 'db world" where
  "upgrade env w = call_db Upgrade (migrations_upgrade env) w"

text \<open>
  \<^verbatim>\<open>print(s)\<close>, \<^verbatim>\<open>input(prompt)\<close>, which raises \<^verbatim>\<open>EOFError\<close> at the end of the input,
  and the \<^verbatim>\<open>exit()\<close> of the interpreter's \<^verbatim>\<open>site\<close> module, which raises
  \<^verbatim>\<open>SystemExit(None)\<close> when it is called with no argument.
\<close>

definition print :: "string \<Rightarrow> 'db world \<Rightarrow> 'db world" where
  "print s w = w\<lparr>trace := trace w @ [Print s]\<rparr>"

definition input :: "string \<Rightarrow> 'db world \<Rightarrow> (error + string) \<times> 'db world" where
  "input prompt w =
     (case stdin w of
        [] \<Rightarrow> (Inl EOFError, w\<lparr>trace := trace w @ [Input prompt]\<rparr>)
      | line # rest \<Rightarrow> (Inr line, w\<lparr>stdin := rest, trace := trace w @ [Input prompt]\<rparr>))"

definition exit :: "error" where
  "exit = SystemExit None"

subsection \<open>\<^verbatim>\<open>confirm_upgrade\<close> and \<^verbatim>\<open>run_upgrade\<close>\<close>

text \<open>The messages are framed by \<^verbatim>\<open>/*\\<close>; the backslash is character 92.\<close>

definition framed :: "string \<Rightarrow> string" where
  "framed s = ''/*'' @ [CHR 0x5C] @ '' '' @ s @ '' /*'' @ [CHR 0x5C]"

definition confirm_upgrade :: "'db env \<Rightarrow> 'db world \<Rightarrow> (error + bool) \<times> 'db world" where
  "confirm_upgrade env w =
     (if isatty env then
        (let w1 = print (framed ''CTFd has updated and must update the database!'') w;
             w2 = print (framed ''Please backup your database before proceeding!'') w1;
             w3 = print (framed ''CTFd maintainers are not responsible for any data loss!'') w2
         in case input ''Run database migrations (Y/N)'' w3 of
              (Inl e, w4) \<Rightarrow> (Inl e, w4)
            | (Inr answer, w4) \<Rightarrow>
                if strip (lower answer) = ''y'' then (Inr True, w4)
                else (Inr False, print (framed ''Ignored database migrations...'') w4))
      else (Inr True, w))"

text \<open>
  \<^verbatim>\<open>run_upgrade\<close>; the module constant \<^verbatim>\<open>__version__\<close> is the parameter
  \<open>running\<close> here and below, and \<open>CTFd_version\<close> is its value in this release.
\<close>

definition CTFd_version :: string where
  "CTFd_version = ''2.0.0''"

definition run_upgrade :: "'db env \<Rightarrow> string \<Rightarrow> 'db world \<Rightarrow> (error + unit) \<times> 'db world" where
  "run_upgrade env running w =
     (case upgrade env w of
        (Inl e, w1) \<Rightarrow> (Inl e, w1)
      | (Inr u, w1) \<Rightarrow> (Inr (), set_config ''ctf_version'' running w1))"

subsection \<open>\<^verbatim>\<open>create_app\<close>\<close>

text \<open>
  The steps of \<^verbatim>\<open>create_app\<close> that touch the database and the configuration store,
  in the order of the source. The statements between them set up objects of the
  process (application object, template loader, serialiser, cache, socket layer, proxy
  fix) and are left out, as is everything after the default theme is set.

  Lines 116 to 122: the schema is created and stamped on SQLite, and brought to the
  latest revision by \<^verbatim>\<open>upgrade()\<close> on every other driver.
\<close>

definition create_app_schema :: "'db env \<Rightarrow> 'db world \<Rightarrow> (error + unit) \<times> 'db world" where
  "create_app_schema env w =
     (if startswith ''sqlite'' (drivername env) then
        (case create_all env w of
           (Inl e, w1) \<Rightarrow> (Inl e, w1)
         | (Inr u, w1) \<Rightarrow> stamp env w1)
      else upgrade env w)"

text \<open>
  Line 149, the condition
  \<^verbatim>\<open>version and (StrictVersion(version) < StrictVersion(__version__))\<close>: the second
  operand is not evaluated when the first is false.
\<close>

definition version_older :: "string option \<Rightarrow> string \<Rightarrow> error + bool" where
  "version_older version running =
     (if truthy version then
        (case StrictVersion_parse (the version) of
           Inl e \<Rightarrow> Inl e
         | Inr a \<Rightarrow>
             (case StrictVersion_parse running of
                Inl e \<Rightarrow> Inl e
              | Inr b \<Rightarrow> Inr (StrictVersion_lt a b)))
      else Inr False)"

text \<open>Lines 146 to 156: the stored version is read, checked and, when absent, written.\<close>

definition create_app_version ::
  "'db env \<Rightarrow> string \<Rightarrow> 'db world \<Rightarrow> (error + unit) \<times> 'db world" where
  "create_app_version env running w =
     (case get_config ''ctf_version'' w of (version, w1) \<Rightarrow>
        (case version_older version running of
           Inl e \<Rightarrow> (Inl e, w1)
         | Inr older \<Rightarrow>
             (case (if older then
                      (case confirm_upgrade env w1 of
                         (Inl e, w2) \<Rightarrow> (Inl e, w2)
                       | (Inr True, w2) \<Rightarrow> run_upgrade env running w2
                       | (Inr False, w2) \<Rightarrow> (Inl exit, w2))
                    else (Inr (), w1)) of
                (Inl e, w3) \<Rightarrow> (Inl e, w3)
              | (Inr u, w3) \<Rightarrow>
                  (Inr (),
                   if \<not> truthy version then set_config ''ctf_version'' running w3 else w3))))"

text \<open>Lines 158 and 159: the default theme.\<close>

definition create_app_theme :: "'db world \<Rightarrow> 'db world" where
  "create_app_theme w =
     (case get_config ''ctf_theme'' w of (theme, w1) \<Rightarrow>
        if \<not> truthy theme then set_config ''ctf_theme'' ''core'' w1 else w1)"

definition create_app :: "'db env \<Rightarrow> string \<Rightarrow> 'db world \<Rightarrow> (error + unit) \<times> 'db world" where
  "create_app env running w =
     (case create_app_schema env w of
        (Inl e, w1) \<Rightarrow> (Inl e, w1)
      | (Inr u, w1) \<Rightarrow>
          (case create_app_version env running w1 of
             (Inl e, w2) \<Rightarrow> (Inl e, w2)
           | (Inr u, w2) \<Rightarrow> (Inr (), create_app_theme w2)))"

subsection \<open>Concrete collaborators\<close>

text \<open>
  A database that counts the migration runs, with schema operations that succeed, one
  whose \<^verbatim>\<open>upgrade\<close> raises, and a world with a given stored version and operator input.
\<close>

definition counting_env :: "string \<Rightarrow> bool \<Rightarrow> nat env" where
  "counting_env driver tty =
     \<lparr>drivername = driver, isatty = tty,
      db_create_all = (\<lambda>d. (Inr (), d)),
      migrations_stamp = (\<lambda>d. (Inr (), d)),
      migrations_upgrade = (\<lambda>d. (Inr (), Suc d))\<rparr>"

definition failing_env :: "string \<Rightarrow> bool \<Rightarrow> nat env" where
  "failing_env driver tty =
     \<lparr>drivername = driver, isatty = tty,
      db_create_all = (\<lambda>d. (Inr (), d)),
      migrations_stamp = (\<lambda>d. (Inr (), d)),
      migrations_upgrade = (\<lambda>d. (Inl (DatabaseError ''migration failed''), d))\<rparr>"

definition stored :: "(string \<times> string) list \<Rightarrow> string list \<Rightarrow> nat world" where
  "stored kvs answers = \<lparr>config = map_of kvs, db = 0, stdin = answers, trace = []\<rparr>"

definition core_loader :: ThemeLoader where
  "core_loader = ThemeLoader_init ''/opt/CTFd/CTFd/themes''"

definition core_files :: filesystem where
  "core_files = map_of [(''/opt/CTFd/CTFd/themes/core/templates/base.html'', ''<html>'')]"

definition plugin_loader :: ThemeLoader where
  "plugin_loader =
     core_loader\<lparr>overriden_templates :=
       (overriden_templates core_loader)(''admin/users.html'' \<mapsto> ''<p>users</p>'')\<rparr>"

section \<open>Template resolution\<close>

subsection \<open>Auxiliary facts\<close>

lemma startswith_admin: "startswith ''admin/'' N \<Longrightarrow> N = ''admin/'' @ drop 6 N"
proof -
  assume "startswith ''admin/'' N"
  then have "take 6 N = ''admin/''"
    by (simp add: startswith_def eval_nat_numeral)
  then show ?thesis
    by (metis append_take_drop_id)
qed

text \<open>The inherited loader raises nothing but \<^verbatim>\<open>TemplateNotFound\<close> of the name it was given.\<close>

lemma split_template_path_loop_error:
  "split_template_path_loop template pieces ps = Inl e \<Longrightarrow> e = TemplateNotFound template"
  by (induction template pieces ps rule: split_template_path_loop.induct)
     (auto split: if_splits)

lemma FileSystemLoader_search_error:
  "FileSystemLoader_search fs sps pieces template = Inl e \<Longrightarrow> e = TemplateNotFound template"
  by (induction sps) (auto simp: Let_def split: option.splits)

lemma FileSystemLoader_get_source_error:
  "FileSystemLoader_get_source fs sps template = Inl e \<Longrightarrow> e = TemplateNotFound template"
  by (auto simp: FileSystemLoader_get_source_def split_template_path_def split: sum.splits
      dest: split_template_path_loop_error FileSystemLoader_search_error)

text \<open>A rewritten path is longer than the reference it was made from.\<close>

lemma admin_rewritten_neq:
  assumes "startswith ''admin/'' N"
  shows "''admin/templates/'' @ drop 6 N \<noteq> N"
proof
  assume "''admin/templates/'' @ drop 6 N = N"
  then have "length (''admin/templates/'' @ drop 6 N) = length (''admin/'' @ drop 6 N)"
    using startswith_admin [OF assms] by simp
  then show False by simp
qed

lemma theme_rewritten_neq: "T @ ''/templates/'' @ N \<noteq> N"
proof
  assume "T @ ''/templates/'' @ N = N"
  then have "length (T @ ''/templates/'' @ N) = length N" by simp
  then show False by simp
qed

text \<open>The example file system holds one template of the theme \<^verbatim>\<open>core\<close>.\<close>

lemma core_base:
  "FileSystemLoader_get_source core_files (searchpath core_loader)
     (''core'' @ ''/templates/'' @ ''base.html'') =
   Inr (''<html>'', ''/opt/CTFd/CTFd/themes/core/templates/base.html'',
        Mtime_check ''/opt/CTFd/CTFd/themes/core/templates/base.html'')"
  by code_simp

lemma dark_base:
  "FileSystemLoader_get_source core_files (searchpath core_loader)
     (''dark'' @ ''/templates/'' @ ''base.html'') =
   Inl (TemplateNotFound ''dark/templates/base.html'')"
  by code_simp

lemma core_miss_theme:
  "FileSystemLoader_get_source core_files (searchpath core_loader)
     (''core'' @ ''/templates/'' @ ''missing.html'') =
   Inl (TemplateNotFound ''core/templates/missing.html'')"
  by code_simp

lemma core_miss_admin:
  "FileSystemLoader_get_source core_files (searchpath core_loader)
     (''admin/templates/'' @ drop 6 ''admin/missing.html'') =
   Inl (TemplateNotFound ''admin/templates/missing.html'')"
  by code_simp

subsection \<open>Overrides\<close>

text \<open>
  C3. A template reference that is a key of the override map resolves to the override's
  text, whatever the reference looks like (no condition on an \<^verbatim>\<open>admin/\<close> prefix or on
  the theme is needed), with the reference itself as file name and the literal
  \<^verbatim>\<open>True\<close> as the validity token; neither the configuration nor the file system is
  consulted.
\<close>

theorem override_precedence:
  "overriden_templates self N = Some S \<Longrightarrow>
   get_source self fs N w = (Inr (S, N, Literal_True), w)"
  by (simp add: get_source_def)

theorem override_precedence_witness:
  "startswith ''admin/'' ''admin/users.html'' \<and>
   get_source plugin_loader core_files ''admin/users.html'' (stored [(''ctf_theme'', ''core'')] []) =
     (Inr (''<p>users</p>'', ''admin/users.html'', Literal_True),
      stored [(''ctf_theme'', ''core'')] [])"
proof -
  have o: "overriden_templates plugin_loader ''admin/users.html'' = Some ''<p>users</p>''"
    by (simp add: plugin_loader_def)
  have a: "startswith ''admin/'' ''admin/users.html''"
    by (simp add: startswith_def)
  from a override_precedence [OF o] show ?thesis by simp
qed

subsection \<open>The admin rule\<close>

text \<open>
  C7. A reference without an override that starts with \<^verbatim>\<open>admin/\<close> is that prefix
  followed by a rest; resolution is the inherited loader's answer for
  \<^verbatim>\<open>admin/templates/<rest>\<close>, one prefix being removed. The world is returned as it
  was, so the configuration store is not read, and the answer is the same for every
  configuration.
\<close>

theorem admin_rule:
  assumes "overriden_templates self N = None" and "startswith ''admin/'' N"
  shows "N = ''admin/'' @ drop 6 N \<and>
         get_source self fs N w =
           (FileSystemLoader_get_source fs (searchpath self) (''admin/templates/'' @ drop 6 N), w)"
  using assms startswith_admin [of N] by (simp add: get_source_def)

theorem admin_rule_witness:
  "get_source core_loader core_files ''admin/admin/x.html'' (stored [(''ctf_theme'', ''core'')] []) =
     (FileSystemLoader_get_source core_files (searchpath core_loader) ''admin/templates/admin/x.html'',
      stored [(''ctf_theme'', ''core'')] [])"
proof -
  have o: "overriden_templates core_loader ''admin/admin/x.html'' = None"
    by (simp add: core_loader_def ThemeLoader_init_def)
  have a: "startswith ''admin/'' ''admin/admin/x.html''"
    by (simp add: startswith_def)
  from admin_rule [OF o a] show ?thesis by simp
qed

subsection \<open>The theme rule\<close>

text \<open>
  C6. A reference without an override that does not start with \<^verbatim>\<open>admin/\<close> resolves
  to the inherited loader's answer for \<^verbatim>\<open>T/templates/N\<close>, where \<open>T\<close> is the theme in
  the configuration store at this call, read once (the trace gains one read of
  \<^verbatim>\<open>ctf_theme\<close>). The loader keeps no theme of its own: after a write of \<open>T'\<close> to the
  store the next resolution uses \<open>T'\<close>.
\<close>

theorem theme_rule:
  assumes "overriden_templates self N = None" and "\<not> startswith ''admin/'' N"
  shows "(config w ''ctf_theme'' = Some T \<longrightarrow>
            get_source self fs N w =
              (FileSystemLoader_get_source fs (searchpath self) (T @ ''/templates/'' @ N),
               w\<lparr>trace := trace w @ [GetConfig ''ctf_theme'']\<rparr>)) \<and>
         fst (get_source self fs N (set_config ''ctf_theme'' T' w)) =
           FileSystemLoader_get_source fs (searchpath self) (T' @ ''/templates/'' @ N)"
  using assms by (simp add: get_source_def get_config_def set_config_def)

theorem theme_rule_witness:
  "fst (get_source core_loader core_files ''base.html'' (stored [(''ctf_theme'', ''core'')] [])) =
     Inr (''<html>'', ''/opt/CTFd/CTFd/themes/core/templates/base.html'',
          Mtime_check ''/opt/CTFd/CTFd/themes/core/templates/base.html'') \<and>
   trace (snd (get_source core_loader core_files ''base.html''
          (stored [(''ctf_theme'', ''core'')] []))) = [GetConfig ''ctf_theme''] \<and>
   fst (get_source core_loader core_files ''base.html''
          (set_config ''ctf_theme'' ''dark'' (stored [(''ctf_theme'', ''core'')] []))) =
     Inl (TemplateNotFound ''dark/templates/base.html'')"
proof -
  have o: "overriden_templates core_loader ''base.html'' = None"
    by (simp add: core_loader_def ThemeLoader_init_def)
  have a: "\<not> startswith ''admin/'' ''base.html''"
    by (simp add: startswith_def)
  have t: "config (stored [(''ctf_theme'', ''core'')] []) ''ctf_theme'' = Some ''core''"
    and tr: "trace (stored [(''ctf_theme'', ''core'')] []) = []"
    by (simp_all add: stored_def)
  from theme_rule [OF o a, of "stored [(''ctf_theme'', ''core'')] []" "''core''" core_files "''dark''"]
    t tr core_base dark_base
  show ?thesis by simp
qed

text \<open>
  C10. When no theme is configured, a reference without an override that does not
  start with \<^verbatim>\<open>admin/\<close> resolves to no source and to no \<^verbatim>\<open>TemplateNotFound\<close>: joining
  the path pieces raises \<^verbatim>\<open>TypeError\<close>.
\<close>

theorem theme_absent_type_error:
  assumes "overriden_templates self N = None" and "\<not> startswith ''admin/'' N"
    and "config w ''ctf_theme'' = None"
  shows "fst (get_source self fs N w) = Inl TypeError \<and>
         (\<forall>src. fst (get_source self fs N w) \<noteq> Inr src) \<and>
         (\<forall>name. fst (get_source self fs N w) \<noteq> Inl (TemplateNotFound name))"
  using assms by (simp add: get_source_def get_config_def)

theorem theme_absent_type_error_witness:
  "fst (get_source core_loader core_files ''base.html'' (stored [] [])) = Inl TypeError"
proof -
  have o: "overriden_templates core_loader ''base.html'' = None"
    by (simp add: core_loader_def ThemeLoader_init_def)
  have a: "\<not> startswith ''admin/'' ''base.html''"
    by (simp add: startswith_def)
  have t: "config (stored [] []) ''ctf_theme'' = None"
    by (simp add: stored_def)
  from theme_absent_type_error [OF o a t] show ?thesis by simp
qed

text \<open>
  The bootstrap establishes that precondition: when \<^verbatim>\<open>create_app\<close> returns, a
  theme is configured.
\<close>

lemma create_app_theme_truthy: "truthy (config (create_app_theme w) ''ctf_theme'')"
  by (cases "config w ''ctf_theme''")
     (auto simp: create_app_theme_def get_config_def set_config_def)

lemma create_app_theme_configured:
  "fst (create_app env running w) = Inr () \<Longrightarrow>
   truthy (config (snd (create_app env running w)) ''ctf_theme'')"
  by (auto simp: create_app_def create_app_theme_truthy split: prod.splits sum.splits)

subsection \<open>A template that is not found\<close>

text \<open>
  C8, as the claim states it: a reference that is not found fails with
  \<^verbatim>\<open>TemplateNotFound\<close> of the reference itself. At the reference \<^verbatim>\<open>missing.html\<close> under
  the theme \<^verbatim>\<open>core\<close> the exception names \<^verbatim>\<open>core/templates/missing.html\<close> instead.
\<close>

theorem not_found_original_counterexample:
  "fst (get_source core_loader core_files ''missing.html'' (stored [(''ctf_theme'', ''core'')] [])) =
     Inl (TemplateNotFound ''core/templates/missing.html'') \<and>
   fst (get_source core_loader core_files ''missing.html'' (stored [(''ctf_theme'', ''core'')] [])) \<noteq>
     Inl (TemplateNotFound ''missing.html'')"
  by code_simp

text \<open>
  C8, amended. \<^verbatim>\<open>get_source\<close> hands the rewritten path to the inherited loader and
  passes its exception on unchanged: when the inherited loader fails on the rewritten
  path, resolution fails with \<^verbatim>\<open>TemplateNotFound\<close> of the rewritten path
  (\<^verbatim>\<open>admin/templates/<rest>\<close> under the admin rule, \<^verbatim>\<open>T/templates/N\<close> under the theme
  rule), which is never the reference \<open>N\<close> that was asked for.
\<close>

theorem not_found_carries_rewritten_path:
  assumes "overriden_templates self N = None"
  shows "(startswith ''admin/'' N \<longrightarrow>
          FileSystemLoader_get_source fs (searchpath self) (''admin/templates/'' @ drop 6 N) = Inl e \<longrightarrow>
            fst (get_source self fs N w) = Inl (TemplateNotFound (''admin/templates/'' @ drop 6 N)) \<and>
            ''admin/templates/'' @ drop 6 N \<noteq> N) \<and>
         (\<not> startswith ''admin/'' N \<longrightarrow> config w ''ctf_theme'' = Some T \<longrightarrow>
          FileSystemLoader_get_source fs (searchpath self) (T @ ''/templates/'' @ N) = Inl e \<longrightarrow>
            fst (get_source self fs N w) = Inl (TemplateNotFound (T @ ''/templates/'' @ N)) \<and>
            T @ ''/templates/'' @ N \<noteq> N)"
proof (intro conjI impI)
  assume a: "startswith ''admin/'' N"
    and f: "FileSystemLoader_get_source fs (searchpath self) (''admin/templates/'' @ drop 6 N) = Inl e"
  from f have "e = TemplateNotFound (''admin/templates/'' @ drop 6 N)"
    by (rule FileSystemLoader_get_source_error)
  with a f assms
  show "fst (get_source self fs N w) = Inl (TemplateNotFound (''admin/templates/'' @ drop 6 N))"
    by (simp add: get_source_def)
  from a show "''admin/templates/'' @ drop 6 N \<noteq> N"
    by (rule admin_rewritten_neq)
next
  assume a: "\<not> startswith ''admin/'' N" and t: "config w ''ctf_theme'' = Some T"
    and f: "FileSystemLoader_get_source fs (searchpath self) (T @ ''/templates/'' @ N) = Inl e"
  from f have "e = TemplateNotFound (T @ ''/templates/'' @ N)"
    by (rule FileSystemLoader_get_source_error)
  with a t f assms
  show "fst (get_source self fs N w) = Inl (TemplateNotFound (T @ ''/templates/'' @ N))"
    by (simp add: get_source_def get_config_def)
  show "T @ ''/templates/'' @ N \<noteq> N"
    by (rule theme_rewritten_neq)
qed

theorem not_found_carries_rewritten_path_witness:
  "fst (get_source core_loader core_files ''admin/missing.html''
          (stored [(''ctf_theme'', ''core'')] [])) =
     Inl (TemplateNotFound ''admin/templates/missing.html'') \<and>
   fst (get_source core_loader core_files ''missing.html''
          (stored [(''ctf_theme'', ''core'')] [])) =
     Inl (TemplateNotFound ''core/templates/missing.html'')"
proof -
  have o: "overriden_templates core_loader ''admin/missing.html'' = None"
      "overriden_templates core_loader ''missing.html'' = None"
    by (simp_all add: core_loader_def ThemeLoader_init_def)
  have a: "startswith ''admin/'' ''admin/missing.html''" "\<not> startswith ''admin/'' ''missing.html''"
    by (simp_all add: startswith_def)
  have t: "config (stored [(''ctf_theme'', ''core'')] []) ''ctf_theme'' = Some ''core''"
    by (simp add: stored_def)
  show ?thesis
    using not_found_carries_rewritten_path [OF o(1), of core_files
        "TemplateNotFound ''admin/templates/missing.html''"
        "stored [(''ctf_theme'', ''core'')] []" "''core''"]
      not_found_carries_rewritten_path [OF o(2), of core_files
        "TemplateNotFound ''core/templates/missing.html''"
        "stored [(''ctf_theme'', ''core'')] []" "''core''"]
      a t core_miss_theme core_miss_admin
    by simp
qed

section \<open>The version check and the upgrade\<close>

subsection \<open>Auxiliary facts\<close>

text \<open>The schema step leaves the configuration store and the operator's input alone.\<close>

lemma create_app_schema_frame:
  "config (snd (create_app_schema env w)) = config w"
  "stdin (snd (create_app_schema env w)) = stdin w"
  by (auto simp: create_app_schema_def create_all_def stamp_def upgrade_def call_db_def
      split: prod.splits sum.splits)







lemma version_older_100_200: "version_older (Some ''1.0.0'') ''2.0.0'' = Inr True"
  by code_simp

subsection \<open>The version gate\<close>



subsection \<open>\<^verbatim>\<open>run_upgrade\<close>\<close>

text \<open>
  C5. In \<^verbatim>\<open>run_upgrade\<close> the stored version is written after \<^verbatim>\<open>upgrade()\<close> has
  returned: when the migration raises, \<^verbatim>\<open>run_upgrade\<close> raises the same exception, the
  configuration store is as it was and the trace holds the migration only; when the
  migration succeeds, the trace holds the migration and then the write, and the stored
  version is the running version.
\<close>

theorem run_upgrade_atomic:
  "(fst (migrations_upgrade env (db w)) = Inl e \<longrightarrow>
      fst (run_upgrade env running w) = Inl e \<and>
      config (snd (run_upgrade env running w)) = config w \<and>
      trace (snd (run_upgrade env running w)) = trace w @ [Upgrade]) \<and>
   (fst (migrations_upgrade env (db w)) = Inr () \<longrightarrow>
      fst (run_upgrade env running w) = Inr () \<and>
      config (snd (run_upgrade env running w)) = (config w)(''ctf_version'' \<mapsto> running) \<and>
      trace (snd (run_upgrade env running w)) =
        trace w @ [Upgrade, SetConfig ''ctf_version'' running])"
  by (auto simp: run_upgrade_def upgrade_def call_db_def set_config_def
      split: prod.splits sum.splits)

theorem run_upgrade_atomic_witness:
  "config (snd (run_upgrade (counting_env ''mysql'' False) CTFd_version
      (stored [(''ctf_version'', ''1.0.0'')] []))) ''ctf_version'' = Some CTFd_version \<and>
   config (snd (run_upgrade (failing_env ''mysql'' False) CTFd_version
      (stored [(''ctf_version'', ''1.0.0'')] []))) ''ctf_version'' = Some ''1.0.0''"
proof -
  have ok: "fst (migrations_upgrade (counting_env ''mysql'' False)
      (db (stored [(''ctf_version'', ''1.0.0'')] []))) = Inr ()"
    by (simp add: counting_env_def)
  have bad: "fst (migrations_upgrade (failing_env ''mysql'' False)
      (db (stored [(''ctf_version'', ''1.0.0'')] []))) = Inl (DatabaseError ''migration failed'')"
    by (simp add: failing_env_def)
  have c: "config (stored [(''ctf_version'', ''1.0.0'')] []) ''ctf_version'' = Some ''1.0.0''"
    by (simp add: stored_def)
  show ?thesis
    using run_upgrade_atomic [of "counting_env ''mysql'' False"
        "stored [(''ctf_version'', ''1.0.0'')] []" "DatabaseError ''migration failed''" CTFd_version]
      run_upgrade_atomic [of "failing_env ''mysql'' False"
        "stored [(''ctf_version'', ''1.0.0'')] []" "DatabaseError ''migration failed''" CTFd_version]
      ok bad c
    by simp
qed

subsection \<open>A fresh install\<close>

text \<open>
  C9. When no version is stored and the schema step has succeeded, \<^verbatim>\<open>create_app\<close>
  returns normally and the stored version is the running version. After the schema step
  the trace holds the read of the version, its write, the read of the theme and, when no
  theme is configured, the write of the default theme: nothing is printed, nothing is
  asked, no line of the operator's input is used, and the database is as the schema step
  left it, so \<^verbatim>\<open>run_upgrade\<close> has not run.
\<close>

theorem fresh_install:
  assumes "config w ''ctf_version'' = None"
    and "fst (create_app_schema env w) = Inr ()"
  shows "fst (create_app env running w) = Inr () \<and>
         config (snd (create_app env running w)) ''ctf_version'' = Some running \<and>
         stdin (snd (create_app env running w)) = stdin w \<and>
         db (snd (create_app env running w)) = db (snd (create_app_schema env w)) \<and>
         trace (snd (create_app env running w)) =
           trace (snd (create_app_schema env w)) @
           [GetConfig ''ctf_version'', SetConfig ''ctf_version'' running,
            GetConfig ''ctf_theme''] @
           (if truthy (config w ''ctf_theme'') then [] else [SetConfig ''ctf_theme'' ''core''])"
proof -
  obtain w1 where s: "create_app_schema env w = (Inr (), w1)"
    using assms(2) by (cases "create_app_schema env w") auto
  have c1: "config w1 = config w" and i1: "stdin w1 = stdin w"
    using create_app_schema_frame [of env w] s by simp_all
  show ?thesis
    using assms(1) s c1 i1
    by (simp add: create_app_def create_app_version_def create_app_theme_def
        version_older_def get_config_def set_config_def)
qed

theorem fresh_install_witness:
  "fst (create_app (counting_env ''mysql'' True) CTFd_version (stored [] [''N''])) = Inr () \<and>
   config (snd (create_app (counting_env ''mysql'' True) CTFd_version (stored [] [''N''])))
     ''ctf_version'' = Some CTFd_version \<and>
   stdin (snd (create_app (counting_env ''mysql'' True) CTFd_version (stored [] [''N'']))) = [''N''] \<and>
   trace (snd (create_app (counting_env ''mysql'' True) CTFd_version (stored [] [''N'']))) =
     [Upgrade, GetConfig ''ctf_version'', SetConfig ''ctf_version'' CTFd_version,
      GetConfig ''ctf_theme'', SetConfig ''ctf_theme'' ''core'']"
proof -
  have c: "config (stored [] [''N'']) ''ctf_version'' = None"
    and th: "config (stored [] [''N'']) ''ctf_theme'' = None"
    and i: "stdin (stored [] [''N'']) = [''N'']"
    by (simp_all add: stored_def)
  have s: "fst (create_app_schema (counting_env ''mysql'' True) (stored [] [''N''])) = Inr ()"
    and tr: "trace (snd (create_app_schema (counting_env ''mysql'' True) (stored [] [''N'']))) =
      [Upgrade]"
    by (simp_all add: create_app_schema_def upgrade_def call_db_def counting_env_def
        startswith_def stored_def)
  from fresh_install [OF c s, of CTFd_version] th i tr show ?thesis by simp
qed

subsection \<open>An upgrade that the operator declines\<close>

text \<open>
  C4, as the claim states it: with the stored version \<^verbatim>\<open>1.0.0\<close>, the running version
  \<^verbatim>\<open>2.0.0\<close>, a terminal attached and the answer \<^verbatim>\<open>N\<close>, the process ends with an exit
  status other than 0. \<^verbatim>\<open>create_app\<close> ends by \<^verbatim>\<open>exit()\<close> with no argument, which is
  \<^verbatim>\<open>SystemExit(None)\<close>, and the exit status of that is 0.
\<close>

theorem declined_exit_status_counterexample:
  "fst (create_app (counting_env ''sqlite'' True) ''2.0.0''
          (stored [(''ctf_version'', ''1.0.0'')] [''N''])) = Inl (SystemExit None) \<and>
   exit_status (SystemExit None) = 0"
  by code_simp

text \<open>
  C4, amended. With the stored version \<^verbatim>\<open>1.0.0\<close>, the running version \<^verbatim>\<open>2.0.0\<close>, a
  terminal attached, a schema step that has succeeded and an answer that is not
  \<^verbatim>\<open>y\<close> after lower-casing and stripping, \<^verbatim>\<open>create_app\<close> ends by \<^verbatim>\<open>exit()\<close> without an
  argument (\<^verbatim>\<open>SystemExit(None)\<close>, exit status 0), and the configuration store, with the
  stored version \<^verbatim>\<open>1.0.0\<close> in it, is unchanged.
\<close>

theorem upgrade_declined:
  assumes "isatty env"
    and "config w ''ctf_version'' = Some ''1.0.0''"
    and "fst (create_app_schema env w) = Inr ()"
    and "stdin w = answer # rest"
    and "strip (lower answer) \<noteq> ''y''"
  shows "fst (create_app env ''2.0.0'' w) = Inl (SystemExit None) \<and>
         exit_status (SystemExit None) = 0 \<and>
         config (snd (create_app env ''2.0.0'' w)) = config w"
proof -
  obtain w1 where s: "create_app_schema env w = (Inr (), w1)"
    using assms(3) by (cases "create_app_schema env w") auto
  have c1: "config w1 = config w" and i1: "stdin w1 = stdin w"
    using create_app_schema_frame [of env w] s by simp_all
  have v: "create_app_version env ''2.0.0'' w1 =
      (Inl (SystemExit None),
       print (framed ''Ignored database migrations...'')
         (snd (input ''Run database migrations (Y/N)''
           (print (framed ''CTFd maintainers are not responsible for any data loss!'')
             (print (framed ''Please backup your database before proceeding!'')
               (print (framed ''CTFd has updated and must update the database!'')
                 (snd (get_config ''ctf_version'' w1))))))))"
    using assms(1,2,4,5) c1 i1 version_older_100_200
    by (simp add: create_app_version_def get_config_def confirm_upgrade_def input_def
        print_def exit_def Let_def)
  show ?thesis
    using s v c1 assms(4) i1
    by (simp add: create_app_def input_def print_def get_config_def)
qed

theorem upgrade_declined_witness:
  "fst (create_app (counting_env ''mysql'' True) ''2.0.0''
          (stored [(''ctf_version'', ''1.0.0'')] [''N''])) = Inl (SystemExit None) \<and>
   config (snd (create_app (counting_env ''mysql'' True) ''2.0.0''
          (stored [(''ctf_version'', ''1.0.0'')] [''N'']))) ''ctf_version'' = Some ''1.0.0''"
proof -
  have t: "isatty (counting_env ''mysql'' True)"
    by (simp add: counting_env_def)
  have c: "config (stored [(''ctf_version'', ''1.0.0'')] [''N'']) ''ctf_version'' = Some ''1.0.0''"
    and i: "stdin (stored [(''ctf_version'', ''1.0.0'')] [''N'']) = ''N'' # []"
    by (simp_all add: stored_def)
  have s: "fst (create_app_schema (counting_env ''mysql'' True)
      (stored [(''ctf_version'', ''1.0.0'')] [''N''])) = Inr ()"
    by (simp add: create_app_schema_def upgrade_def call_db_def counting_env_def startswith_def)
  have n: "strip (lower ''N'') \<noteq> ''y''"
    by code_simp
  from upgrade_declined [OF t c s i n] c show ?thesis by simp
qed

text \<open>
  What counts as an affirmative answer is decided by \<^verbatim>\<open>.lower().strip() == 'y'\<close>:
  upper case and surrounding white space, a no-break space or a next-line character
  included, do not matter, and \<^verbatim>\<open>yes\<close> is not affirmative. On an affirmative answer
  the upgrade runs and the running version is stored.
\<close>

lemma affirmative_answers:
  "strip (lower '' Y '') = ''y''"
  "strip (lower (''y'' @ [CHR 0xA0])) = ''y''"
  "strip (lower ([CHR 0x85] @ ''Y'')) = ''y''"
  "strip (lower ''yes'') \<noteq> ''y''"
  by code_simp+

lemma upgrade_accepted_nbsp:
  "fst (create_app (counting_env ''sqlite'' True) ''2.0.0''
          (stored [(''ctf_version'', ''1.0.0'')] [''y'' @ [CHR 0xA0]])) = Inr () \<and>
   config (snd (create_app (counting_env ''sqlite'' True) ''2.0.0''
          (stored [(''ctf_version'', ''1.0.0'')] [''y'' @ [CHR 0xA0]]))) ''ctf_version'' =
     Some ''2.0.0''"
  by code_simp

subsection \<open>Migrations and the operator's confirmation\<close>

text \<open>
  C1. On a driver other than SQLite the schema step of lines 119 to 122 calls
  \<^verbatim>\<open>upgrade()\<close> before the stored version is read. With the driver \<^verbatim>\<open>mysql\<close>, the
  stored version \<^verbatim>\<open>1.0.0\<close>, a terminal attached and the answer \<^verbatim>\<open>N\<close>, the migration
  has run once (the database counts one run) before the warning is printed and the
  question is asked; the operator declines, the message that the migrations were
  ignored is printed, and the process exits.
\<close>

theorem upgrade_before_confirmation:
  "fst (create_app (counting_env ''mysql'' True) CTFd_version
          (stored [(''ctf_version'', ''1.0.0'')] [''N''])) = Inl (SystemExit None) \<and>
   db (snd (create_app (counting_env ''mysql'' True) CTFd_version
          (stored [(''ctf_version'', ''1.0.0'')] [''N'']))) = 1 \<and>
   trace (snd (create_app (counting_env ''mysql'' True) CTFd_version
          (stored [(''ctf_version'', ''1.0.0'')] [''N'']))) =
     [Upgrade, GetConfig ''ctf_version'',
      Print (framed ''CTFd has updated and must update the database!''),
      Print (framed ''Please backup your database before proceeding!''),
      Print (framed ''CTFd maintainers are not responsible for any data loss!''),
      Input ''Run database migrations (Y/N)'',
      Print (framed ''Ignored database migrations...'')]"
  by code_simp

text \<open>
  On SQLite the same run keeps what the messages say: when the operator declines, no
  migration has run.
\<close>

lemma sqlite_schema_no_upgrade:
  assumes "startswith ''sqlite'' (drivername env)" and "Upgrade \<notin> set (trace w)"
  shows "Upgrade \<notin> set (trace (snd (create_app_schema env w)))"
  using assms
  by (auto simp: create_app_schema_def create_all_def stamp_def call_db_def
      split: prod.splits sum.splits)

lemma confirm_upgrade_declined:
  assumes "isatty env" and "stdin w = answer # rest" and "strip (lower answer) \<noteq> ''y''"
  shows "fst (confirm_upgrade env w) = Inr False"
    and "set (trace (snd (confirm_upgrade env w))) \<subseteq> set (trace w) \<union> range Print \<union> range Input"
  using assms by (auto simp: confirm_upgrade_def input_def print_def Let_def)

lemma version_declined_no_upgrade:
  assumes "isatty env" and "stdin w = answer # rest" and "strip (lower answer) \<noteq> ''y''"
    and "Upgrade \<notin> set (trace w)"
  shows "Upgrade \<notin> set (trace (snd (create_app_version env running w)))"
proof -
  let ?w1 = "w\<lparr>trace := trace w @ [GetConfig ''ctf_version'']\<rparr>"
  have i: "stdin ?w1 = answer # rest"
    using assms(2) by simp
  have f: "fst (confirm_upgrade env ?w1) = Inr False"
    using assms(1) i assms(3) by (rule confirm_upgrade_declined(1))
  have t: "Upgrade \<notin> set (trace (snd (confirm_upgrade env ?w1)))"
    using confirm_upgrade_declined(2) [OF assms(1) i assms(3)] assms(4) by auto
  show ?thesis
  proof (cases "version_older (config w ''ctf_version'') running")
    case (Inl e)
    then show ?thesis
      using assms(4) by (simp add: create_app_version_def get_config_def)
  next
    case (Inr older)
    show ?thesis
    proof (cases older)
      case True
      with Inr f t show ?thesis
        by (cases "confirm_upgrade env ?w1")
           (simp add: create_app_version_def get_config_def)
    next
      case False
      with Inr assms(4) show ?thesis
        by (simp add: create_app_version_def get_config_def set_config_def)
    qed
  qed
qed

lemma create_app_theme_no_upgrade:
  "Upgrade \<notin> set (trace w) \<Longrightarrow> Upgrade \<notin> set (trace (create_app_theme w))"
  by (simp add: create_app_theme_def get_config_def set_config_def)

lemma sqlite_declined_no_upgrade:
  assumes "startswith ''sqlite'' (drivername env)" and "isatty env"
    and "stdin w = answer # rest" and "strip (lower answer) \<noteq> ''y''"
    and "Upgrade \<notin> set (trace w)"
  shows "Upgrade \<notin> set (trace (snd (create_app env running w)))"
proof (cases "create_app_schema env w")
  case (Pair r w1)
  have t1: "Upgrade \<notin> set (trace w1)"
    using sqlite_schema_no_upgrade [OF assms(1,5)] Pair by simp
  have i1: "stdin w1 = answer # rest"
    using create_app_schema_frame(2) [of env w] Pair assms(3) by simp
  have v: "Upgrade \<notin> set (trace (snd (create_app_version env running w1)))"
    using assms(2) i1 assms(4) t1 by (rule version_declined_no_upgrade)
  show ?thesis
  proof (cases r)
    case (Inl e)
    with Pair t1 show ?thesis
      by (simp add: create_app_def)
  next
    case (Inr u)
    with Pair v show ?thesis
      by (cases "create_app_version env running w1")
         (auto simp: create_app_def create_app_theme_no_upgrade split: sum.splits)
  qed
qed

end
